theory Spec2Isabelle
  imports Main
begin

unbundle bit_operations_syntax

section \<open>Python strings\<close>

text \<open>
  Python \<^verbatim>\<open>str\<close> values are modelled as \<^typ>\<open>string\<close>; an exception is
  modelled by its message, the text that \<^verbatim>\<open>str(e)\<close> gives.
\<close>

type_synonym exn = string

text \<open>\<^verbatim>\<open>s.startswith(p)\<close>\<close>

definition startswith :: "string \<Rightarrow> string \<Rightarrow> bool" where
  "startswith s p = (take (length p) s = p)"

text \<open>\<^verbatim>\<open>sub in s\<close> for two strings: \<open>sub\<close> occurs somewhere in \<open>s\<close>.\<close>

fun str_in :: "string \<Rightarrow> string \<Rightarrow> bool" where
  "str_in sub [] = (sub = [])"
| "str_in sub (c # cs) = (startswith (c # cs) sub \<or> str_in sub cs)"

text \<open>
  The character class \<^verbatim>\<open>[a-f0-9A-Z_]\<close> of the pattern in \<^verbatim>\<open>_run_docker\<close>.
\<close>

definition hash_char :: "char \<Rightarrow> bool" where
  "hash_char c = (c \<in> set ''abcdef0123456789ABCDEFGHIJKLMNOPQRSTUVWXYZ_'')"

text \<open>
  \<^verbatim>\<open>re.search(r"Deterministic Hash: ([a-f0-9A-Z_]+)", output)\<close>: the leftmost position
  where the label is followed by at least one character of the class; the group is the
  longest run of such characters there. \<open>None\<close> is Python's \<^verbatim>\<open>None\<close>.
\<close>

fun re_search :: "string \<Rightarrow> string option" where
  "re_search [] = None"
| "re_search (c # cs) =
     (if startswith (c # cs) ''Deterministic Hash: ''
         \<and> takeWhile hash_char (drop (length ''Deterministic Hash: '') (c # cs)) \<noteq> []
      then Some (takeWhile hash_char (drop (length ''Deterministic Hash: '') (c # cs)))
      else re_search cs)"

section \<open>Keccak-256\<close>

text \<open>
  \<^verbatim>\<open>Web3.keccak(text=...)\<close> is a library function: Keccak-256 (rate 1088 bits,
  padding byte 0x01) of the UTF-8 bytes of the text. It is written out here so that the
  sentinel values of the classifier are concrete. Lanes are 64-bit values held as
  integers in \<open>[0, 2^64)\<close>; the state is the list of its 25 lanes, lane \<open>(x, y)\<close> at
  index \<open>x + 5 * y\<close>.
\<close>

definition rol :: "nat \<Rightarrow> int \<Rightarrow> int" where
  "rol n w = (w * 2 ^ n) mod 18446744073709551616 + w div 2 ^ (64 - n)"

definition col :: "int \<Rightarrow> int \<Rightarrow> int \<Rightarrow> int \<Rightarrow> int \<Rightarrow> int" where
  "col a b c d e = a XOR b XOR c XOR d XOR e"

definition chi1 :: "int \<Rightarrow> int \<Rightarrow> int \<Rightarrow> int" where
  "chi1 a b c = a XOR ((18446744073709551615 - b) AND c)"

fun theta :: "int list \<Rightarrow> int list" where
  "theta [a0, a1, a2, a3, a4, a5, a6, a7, a8, a9, a10, a11, a12,
         a13, a14, a15, a16, a17, a18, a19, a20, a21, a22, a23, a24] =
    (let c0 = col a0 a5 a10 a15 a20;
         c1 = col a1 a6 a11 a16 a21;
         c2 = col a2 a7 a12 a17 a22;
         c3 = col a3 a8 a13 a18 a23;
         c4 = col a4 a9 a14 a19 a24;
         d0 = c4 XOR rol 1 c1;
         d1 = c0 XOR rol 1 c2;
         d2 = c1 XOR rol 1 c3;
         d3 = c2 XOR rol 1 c4;
         d4 = c3 XOR rol 1 c0
     in [a0 XOR d0, a1 XOR d1, a2 XOR d2, a3 XOR d3, a4 XOR d4,
         a5 XOR d0, a6 XOR d1, a7 XOR d2, a8 XOR d3, a9 XOR d4,
         a10 XOR d0, a11 XOR d1, a12 XOR d2, a13 XOR d3, a14 XOR d4,
         a15 XOR d0, a16 XOR d1, a17 XOR d2, a18 XOR d3, a19 XOR d4,
         a20 XOR d0, a21 XOR d1, a22 XOR d2, a23 XOR d3, a24 XOR d4])"
| "theta A = A"

fun rho_pi :: "int list \<Rightarrow> int list" where
  "rho_pi [a0, a1, a2, a3, a4, a5, a6, a7, a8, a9, a10, a11, a12,
          a13, a14, a15, a16, a17, a18, a19, a20, a21, a22, a23, a24] =
     [rol 0 a0, rol 44 a6, rol 43 a12, rol 21 a18, rol 14 a24,
      rol 28 a3, rol 20 a9, rol 3 a10, rol 45 a16, rol 61 a22,
      rol 1 a1, rol 6 a7, rol 25 a13, rol 8 a19, rol 18 a20,
      rol 27 a4, rol 36 a5, rol 10 a11, rol 15 a17, rol 56 a23,
      rol 62 a2, rol 55 a8, rol 39 a14, rol 41 a15, rol 2 a21]"
| "rho_pi A = A"

fun chi :: "int list \<Rightarrow> int list" where
  "chi [a0, a1, a2, a3, a4, a5, a6, a7, a8, a9, a10, a11, a12,
       a13, a14, a15, a16, a17, a18, a19, a20, a21, a22, a23, a24] =
     [chi1 a0 a1 a2, chi1 a1 a2 a3, chi1 a2 a3 a4,
      chi1 a3 a4 a0, chi1 a4 a0 a1, chi1 a5 a6 a7,
      chi1 a6 a7 a8, chi1 a7 a8 a9, chi1 a8 a9 a5,
      chi1 a9 a5 a6, chi1 a10 a11 a12, chi1 a11 a12 a13,
      chi1 a12 a13 a14, chi1 a13 a14 a10, chi1 a14 a10 a11,
      chi1 a15 a16 a17, chi1 a16 a17 a18, chi1 a17 a18 a19,
      chi1 a18 a19 a15, chi1 a19 a15 a16, chi1 a20 a21 a22,
      chi1 a21 a22 a23, chi1 a22 a23 a24, chi1 a23 a24 a20,
      chi1 a24 a20 a21]"
| "chi A = A"

fun iota :: "int \<Rightarrow> int list \<Rightarrow> int list" where
  "iota rc [] = []"
| "iota rc (a # as) = (a XOR rc) # as"

definition keccak_round :: "int list \<Rightarrow> int \<Rightarrow> int list" where
  "keccak_round A rc = iota rc (chi (rho_pi (theta A)))"

definition round_constants :: "int list" where
  "round_constants =
     [0x0000000000000001, 0x0000000000008082, 0x800000000000808A, 0x8000000080008000,
      0x000000000000808B, 0x0000000080000001, 0x8000000080008081, 0x8000000000008009,
      0x000000000000008A, 0x0000000000000088, 0x0000000080008009, 0x000000008000000A,
      0x000000008000808B, 0x800000000000008B, 0x8000000000008089, 0x8000000000008003,
      0x8000000000008002, 0x8000000000000080, 0x000000000000800A, 0x800000008000000A,
      0x8000000080008081, 0x8000000000008080, 0x0000000080000001, 0x8000000080008008]"

definition keccak_f :: "int list \<Rightarrow> int list" where
  "keccak_f A = foldl keccak_round A round_constants"

text \<open>Padding to a multiple of the rate, 136 bytes.\<close>

definition keccak_pad :: "int list \<Rightarrow> int list" where
  "keccak_pad m =
     (let k = 136 - length m mod 136
      in if k = 1 then m @ [0x81] else m @ [0x01] @ replicate (k - 2) 0 @ [0x80])"

text \<open>Eight bytes, little-endian, as one lane, and back.\<close>

definition lane_of_bytes :: "int list \<Rightarrow> int" where
  "lane_of_bytes bs = foldr (\<lambda>b acc. b + 256 * acc) bs 0"

definition bytes_of_lane :: "int \<Rightarrow> int list" where
  "bytes_of_lane w = map (\<lambda>i. (w div 256 ^ i) mod 256) [0..<8]"

definition chunks :: "nat \<Rightarrow> 'a list \<Rightarrow> 'a list list" where
  "chunks n xs = map (\<lambda>i. take n (drop (i * n) xs)) [0..<length xs div n]"

definition absorb :: "int list \<Rightarrow> int list \<Rightarrow> int list" where
  "absorb A block =
     keccak_f (map2 (XOR) A (map lane_of_bytes (chunks 8 block) @ replicate 8 0))"

definition keccak256 :: "int list \<Rightarrow> int list" where
  "keccak256 m =
     concat (map bytes_of_lane
       (take 4 (foldl absorb (replicate 25 0) (chunks 136 (keccak_pad m)))))"

definition keccak_text :: "string \<Rightarrow> int list" where
  "keccak_text s = keccak256 (map of_char s)"

section \<open>The verifier step: \<^verbatim>\<open>_run_docker\<close>\<close>

text \<open>
  What a run leaves behind is a list of events, oldest first: a call of the log callback
  with its message and level, a subprocess launch with its command line.
\<close>

datatype event =
    Log string string
  | Exec "string list"

text \<open>
  What \<^verbatim>\<open>_run_docker\<close> returns: \<^verbatim>\<open>Web3.keccak\<close> gives 32 bytes, the last
  success branch gives a Python string.
\<close>

datatype result_hash = HexBytes "int list" | HexStr string

text \<open>
  The sandbox runtime's answer: the launch raises, or the process ends with its two
  captured streams. \<open>DecodeRaise\<close> stands for a standard output that
  \<^verbatim>\<open>stdout.decode()\<close> rejects; in \<open>Completed\<close> the first string is the decoded
  standard output, the second the standard error.
\<close>

datatype proc_reply =
    SpawnRaise exn
  | DecodeRaise exn
  | Completed string string

definition docker_cmd :: "string \<Rightarrow> string \<Rightarrow> string list" where
  "docker_cmd docker_image abs_path =
     [''docker'', ''run'', ''--rm'', ''--network'', ''none'',
      ''--cpus'', ''2'', ''--memory'', ''8g'',
      ''-v'', abs_path @ '':/data/Task.lean'',
      docker_image]"

text \<open>The warning sign of the two log messages, U+26A0 U+FE0F, as its UTF-8 bytes.\<close>

definition warning_sign :: string where
  "warning_sign = [CHR 0xE2, CHR 0x9A, CHR 0xA0, CHR 0xEF, CHR 0xB8, CHR 0x8F]"

text \<open>
  Lines 287 to 309 of \<^verbatim>\<open>_run_docker\<close>: the classification of the text
  \<open>output\<close>, with the log calls it makes.
\<close>

definition classify :: "string \<Rightarrow> event list \<times> result_hash" where
  "classify output =
     (if str_in ''Status: FAILURE'' output then
        (if str_in ''CHEAT DETECTED'' output \<or> str_in ''ERROR_AXIOM_CHECK_FAILED'' output
         then ([Log (warning_sign @ '' Cheat Detected by Docker!'') ''WARN''],
               HexBytes (keccak_text ''ERROR_AXIOM_CHECK_FAILED''))
         else ([Log (warning_sign @ '' Compilation or Runtime Failed!'') ''WARN''],
               HexBytes (keccak_text ''COMPILATION_FAILED'')))
      else
        (case re_search output of
           Some hash_str \<Rightarrow>
             (if \<not> startswith hash_str ''0x'' \<and> length hash_str \<noteq> 64
              then ([], HexBytes (keccak_text hash_str))
              else ([], HexStr (''0x'' @ hash_str)))
         | None \<Rightarrow>
             ([Log (''Docker output parsing failed: '' @ take 100 output) ''ERROR''],
              HexBytes (keccak_text ''COMPILATION_FAILED''))))"

text \<open>
  \<^verbatim>\<open>_run_docker(file_path)\<close>. The path handed over by \<^verbatim>\<open>_download_ipfs\<close> is
  absolute already, so \<^verbatim>\<open>os.path.abspath\<close> leaves it as it is. The text that is
  classified is \<^verbatim>\<open>stdout.decode()\<close>; \<^verbatim>\<open>stderr\<close> is bound and not read again.
\<close>

definition run_docker :: "string \<Rightarrow> string \<Rightarrow> proc_reply \<Rightarrow> event list \<times> (exn + result_hash)" where
  "run_docker docker_image file_path reply =
     (let started = [Log ''Starting Docker verification...'' ''INFO'',
                     Exec (docker_cmd docker_image file_path)]
      in case reply of
           SpawnRaise e \<Rightarrow> (started, Inl e)
         | DecodeRaise e \<Rightarrow> (started, Inl e)
         | Completed stdout stderr \<Rightarrow>
             (let output = stdout
              in (started @ fst (classify output), Inr (snd (classify output)))))"

text \<open>
  The specification's reading of a result token: a full-length hash literal is 64
  hexadecimal digits. The code itself only tests the length (and a prefix that the
  pattern never lets through).
\<close>

definition hex_digit :: "char \<Rightarrow> bool" where
  "hex_digit c = (c \<in> set ''0123456789abcdefABCDEF'')"

definition full_length_hash_literal :: "string \<Rightarrow> bool" where
  "full_length_hash_literal tok = (length tok = 64 \<and> list_all hex_digit tok)"

section \<open>Properties of the classifier\<close>

text \<open>Keccak-256 on its standard test vector, the empty message.\<close>

lemma keccak_text_empty: "keccak_text [] =
  [0xc5,0xd2,0x46,0x01,0x86,0xf7,0x23,0x3c,0x92,0x7e,0x7d,0xb2,0xdc,0xc7,0x03,0xc0,
   0xe5,0x00,0xb6,0x53,0xca,0x82,0x27,0x3b,0x7b,0xfa,0xd8,0x04,0x5d,0x85,0xa4,0x70]"
  by code_simp

text \<open>The two sentinel values.\<close>

lemma keccak_text_cheat: "keccak_text ''ERROR_AXIOM_CHECK_FAILED'' =
  [0x21,0x53,0xf2,0x24,0x37,0x42,0x90,0xd7,0x0d,0xee,0x5a,0xea,0x92,0x34,0x46,0x00,
   0x2e,0x8f,0x2a,0xa9,0x5a,0x35,0x8d,0xfc,0xfd,0x9f,0xf8,0x77,0x09,0x2b,0xe7,0xa4]"
  by code_simp

lemma keccak_text_compilation: "keccak_text ''COMPILATION_FAILED'' =
  [0xff,0xf8,0x1a,0x15,0x2a,0x9d,0x35,0xfb,0x66,0x05,0xed,0xe3,0xb9,0x96,0x48,0x79,
   0xce,0x8f,0x8a,0xe2,0xc5,0xf9,0x67,0x42,0xd3,0x39,0xf8,0x0c,0x51,0x71,0xff,0x33]"
  by code_simp

lemma keccak_text_abc123: "keccak_text ''abc123'' =
  [0x71,0x9a,0xcc,0xc6,0x1a,0x9c,0xc1,0x26,0x83,0x0e,0x59,0x06,0xf9,0xd6,0x72,0xd0,
   0x6e,0xab,0x6f,0x85,0x97,0x28,0x70,0x95,0xa2,0xc5,0x5a,0x8b,0x77,0x5e,0x70,0x16]"
  by code_simp

lemma sentinels_differ:
  "keccak_text ''ERROR_AXIOM_CHECK_FAILED'' \<noteq> keccak_text ''COMPILATION_FAILED''"
  by (simp only: keccak_text_cheat keccak_text_compilation) simp

text \<open>\<open>str_in\<close> is the substring relation.\<close>

lemma startswith_iff: "startswith s p \<longleftrightarrow> (\<exists>q. s = p @ q)"
  unfolding startswith_def
  by (metis append_eq_conv_conj append_take_drop_id)

lemma str_in_iff: "str_in sub s \<longleftrightarrow> (\<exists>p q. s = p @ sub @ q)"
proof (induction s)
  case Nil
  then show ?case by auto
next
  case (Cons c cs)
  show ?case
  proof
    assume "str_in sub (c # cs)"
    then consider "startswith (c # cs) sub" | "str_in sub cs" by auto
    then show "\<exists>p q. c # cs = p @ sub @ q"
    proof cases
      case 1
      then obtain q where "c # cs = sub @ q" by (auto simp: startswith_iff)
      then have "c # cs = [] @ sub @ q" by simp
      then show ?thesis by blast
    next
      case 2
      then obtain p q where "cs = p @ sub @ q" using Cons.IH by blast
      then have "c # cs = (c # p) @ sub @ q" by simp
      then show ?thesis by blast
    qed
  next
    assume "\<exists>p q. c # cs = p @ sub @ q"
    then obtain p q where pq: "c # cs = p @ sub @ q" by blast
    show "str_in sub (c # cs)"
    proof (cases p)
      case Nil
      with pq have "startswith (c # cs) sub" by (auto simp: startswith_iff)
      then show ?thesis by simp
    next
      case (Cons a p')
      with pq have "cs = p' @ sub @ q" by simp
      then have "str_in sub cs" using Cons.IH by blast
      then show ?thesis by simp
    qed
  qed
qed

text \<open>
  C6. When the verifier's output has the failure status, a cheat marker decides first:
  with the status and one of the two markers the classifier returns the cheat sentinel,
  which is not the compilation-failure sentinel; with the status and neither marker it
  returns the compilation-failure sentinel.
\<close>

theorem failure_cheat_precedence:
  assumes "str_in ''Status: FAILURE'' out"
  shows "(str_in ''CHEAT DETECTED'' out \<or> str_in ''ERROR_AXIOM_CHECK_FAILED'' out \<longrightarrow>
            snd (run_docker img path (Completed out err))
              = Inr (HexBytes (keccak_text ''ERROR_AXIOM_CHECK_FAILED''))
          \<and> snd (run_docker img path (Completed out err))
              \<noteq> Inr (HexBytes (keccak_text ''COMPILATION_FAILED'')))
       \<and> (\<not> str_in ''CHEAT DETECTED'' out \<and> \<not> str_in ''ERROR_AXIOM_CHECK_FAILED'' out \<longrightarrow>
            snd (run_docker img path (Completed out err))
              = Inr (HexBytes (keccak_text ''COMPILATION_FAILED'')))"
  using assms sentinels_differ by (simp add: run_docker_def classify_def)

theorem failure_cheat_precedence_witness:
  "snd (run_docker ''img'' ''/t/Task_7.lean''
          (Completed ''Status: FAILURE, CHEAT DETECTED'' ''''))
     = Inr (HexBytes (keccak_text ''ERROR_AXIOM_CHECK_FAILED''))
   \<and> snd (run_docker ''img'' ''/t/Task_7.lean''
          (Completed ''Status: FAILURE, CHEAT DETECTED'' ''''))
     \<noteq> Inr (HexBytes (keccak_text ''COMPILATION_FAILED''))
   \<and> snd (run_docker ''img'' ''/t/Task_7.lean''
          (Completed ''error: unknown id; Status: FAILURE'' ''''))
     = Inr (HexBytes (keccak_text ''COMPILATION_FAILED''))"
proof -
  have a: "str_in ''Status: FAILURE'' ''Status: FAILURE, CHEAT DETECTED''"
    by (simp add: startswith_def)
  have b: "str_in ''CHEAT DETECTED'' ''Status: FAILURE, CHEAT DETECTED''"
    by (simp add: startswith_def)
  have c: "str_in ''Status: FAILURE'' ''error: unknown id; Status: FAILURE''"
    by (simp add: startswith_def)
  have d: "\<not> str_in ''CHEAT DETECTED'' ''error: unknown id; Status: FAILURE''"
    by (simp add: startswith_def)
  have e: "\<not> str_in ''ERROR_AXIOM_CHECK_FAILED'' ''error: unknown id; Status: FAILURE''"
    by (simp add: startswith_def)
  show ?thesis
    using failure_cheat_precedence [OF a, of "''img''" "''/t/Task_7.lean''" "''''"]
          failure_cheat_precedence [OF c, of "''img''" "''/t/Task_7.lean''" "''''"]
          b d e
    by blast
qed

text \<open>
  C4, as the claim states it, fails: the text that is classified is not the standard
  output combined with the standard error. With an empty standard output and the failure
  status and a cheat marker on the standard error, the result is not the one that the
  combined text classifies to.
\<close>

theorem classified_text_counterexample:
  "snd (run_docker ''img'' ''/t/Task_7.lean'' (Completed '''' ''Status: FAILURE CHEAT DETECTED''))
     \<noteq> Inr (snd (classify ('''' @ ''Status: FAILURE CHEAT DETECTED'')))"
  using sentinels_differ by (simp add: run_docker_def classify_def startswith_def)

text \<open>
  C4, amended. The text that is inspected for the failure status, the cheat markers and
  the result token is the decoded standard output alone: the result of a run is the
  classification of its standard output, and the standard error, captured as it is,
  changes neither the result nor the log.
\<close>

theorem classified_text_is_stdout:
  "run_docker img path (Completed out err) = run_docker img path (Completed out err')
   \<and> snd (run_docker img path (Completed out err)) = Inr (snd (classify out))"
  by (simp add: run_docker_def)

text \<open>
  C7. The values returned for a detected cheat, for a failed compilation or run, and for
  a success output without a parsable token are fixed: each is the Keccak-256 digest of a
  fixed label, whatever else the output holds. The two digests are the constants below;
  the cheat value differs from the compilation-failure value, and the unparsable case
  returns the compilation-failure value.
\<close>

theorem sentinels_fixed:
  "(str_in ''Status: FAILURE'' out
      \<and> (str_in ''CHEAT DETECTED'' out \<or> str_in ''ERROR_AXIOM_CHECK_FAILED'' out) \<longrightarrow>
        snd (run_docker img path (Completed out err))
          = Inr (HexBytes (keccak_text ''ERROR_AXIOM_CHECK_FAILED'')))
   \<and> (str_in ''Status: FAILURE'' out
      \<and> \<not> str_in ''CHEAT DETECTED'' out \<and> \<not> str_in ''ERROR_AXIOM_CHECK_FAILED'' out \<longrightarrow>
        snd (run_docker img path (Completed out err))
          = Inr (HexBytes (keccak_text ''COMPILATION_FAILED'')))
   \<and> (\<not> str_in ''Status: FAILURE'' out \<and> re_search out = None \<longrightarrow>
        snd (run_docker img path (Completed out err))
          = Inr (HexBytes (keccak_text ''COMPILATION_FAILED'')))
   \<and> keccak_text ''ERROR_AXIOM_CHECK_FAILED'' =
       [0x21,0x53,0xf2,0x24,0x37,0x42,0x90,0xd7,0x0d,0xee,0x5a,0xea,0x92,0x34,0x46,0x00,
        0x2e,0x8f,0x2a,0xa9,0x5a,0x35,0x8d,0xfc,0xfd,0x9f,0xf8,0x77,0x09,0x2b,0xe7,0xa4]
   \<and> keccak_text ''COMPILATION_FAILED'' =
       [0xff,0xf8,0x1a,0x15,0x2a,0x9d,0x35,0xfb,0x66,0x05,0xed,0xe3,0xb9,0x96,0x48,0x79,
        0xce,0x8f,0x8a,0xe2,0xc5,0xf9,0x67,0x42,0xd3,0x39,0xf8,0x0c,0x51,0x71,0xff,0x33]
   \<and> keccak_text ''ERROR_AXIOM_CHECK_FAILED'' \<noteq> keccak_text ''COMPILATION_FAILED''"
proof -
  have "keccak_text ''ERROR_AXIOM_CHECK_FAILED'' \<noteq> keccak_text ''COMPILATION_FAILED''"
    by (rule sentinels_differ)
  moreover note keccak_text_cheat keccak_text_compilation
  ultimately show ?thesis
    by (simp add: run_docker_def classify_def)
qed

theorem sentinels_fixed_witness:
  "snd (run_docker ''img'' ''/t/Task_7.lean'' (Completed ''Status: FAILURE CHEAT DETECTED'' ''''))
     = Inr (HexBytes (keccak_text ''ERROR_AXIOM_CHECK_FAILED''))
   \<and> snd (run_docker ''img'' ''/t/Task_7.lean'' (Completed ''Status: FAILURE'' ''''))
     = Inr (HexBytes (keccak_text ''COMPILATION_FAILED''))
   \<and> snd (run_docker ''img'' ''/t/Task_7.lean'' (Completed ''Status: SUCCESS'' ''''))
     = Inr (HexBytes (keccak_text ''COMPILATION_FAILED''))"
proof -
  have a: "str_in ''Status: FAILURE'' ''Status: FAILURE CHEAT DETECTED''
           \<and> (str_in ''CHEAT DETECTED'' ''Status: FAILURE CHEAT DETECTED''
              \<or> str_in ''ERROR_AXIOM_CHECK_FAILED'' ''Status: FAILURE CHEAT DETECTED'')"
    by (simp add: startswith_def)
  have b: "str_in ''Status: FAILURE'' ''Status: FAILURE''
           \<and> \<not> str_in ''CHEAT DETECTED'' ''Status: FAILURE''
           \<and> \<not> str_in ''ERROR_AXIOM_CHECK_FAILED'' ''Status: FAILURE''"
    by (simp add: startswith_def)
  have c: "\<not> str_in ''Status: FAILURE'' ''Status: SUCCESS''
           \<and> re_search ''Status: SUCCESS'' = None"
    by (simp add: startswith_def)
  note s1 = sentinels_fixed [of "''Status: FAILURE CHEAT DETECTED''" "''img''"
      "''/t/Task_7.lean''" "''''", THEN conjunct1, THEN mp, OF a]
  note s2 = sentinels_fixed [of "''Status: FAILURE''" "''img''"
      "''/t/Task_7.lean''" "''''", THEN conjunct2, THEN conjunct1, THEN mp, OF b]
  note s3 = sentinels_fixed [of "''Status: SUCCESS''" "''img''"
      "''/t/Task_7.lean''" "''''", THEN conjunct2, THEN conjunct2, THEN conjunct1, THEN mp, OF c]
  show ?thesis
    by (intro conjI) (rule s1, rule s2, rule s3)
qed

text \<open>
  C8, as the claim states it, fails. A token of 64 letters \<open>Z\<close> is matched by the
  pattern and is not a hash literal, so the claim has the classifier return the digest
  of the token text; the code, which tests the length alone, returns the token behind
  \<open>0x\<close>.
\<close>

theorem token_literal_or_digest_counterexample:
  "\<not> str_in ''Status: FAILURE''
       ''Deterministic Hash: ZZZZZZZZZZZZZZZZZZZZZZZZZZZZZZZZZZZZZZZZZZZZZZZZZZZZZZZZZZZZZZZZ''
   \<and> re_search ''Deterministic Hash: ZZZZZZZZZZZZZZZZZZZZZZZZZZZZZZZZZZZZZZZZZZZZZZZZZZZZZZZZZZZZZZZZ''
       = Some ''ZZZZZZZZZZZZZZZZZZZZZZZZZZZZZZZZZZZZZZZZZZZZZZZZZZZZZZZZZZZZZZZZ''
   \<and> \<not> full_length_hash_literal ''ZZZZZZZZZZZZZZZZZZZZZZZZZZZZZZZZZZZZZZZZZZZZZZZZZZZZZZZZZZZZZZZZ''
   \<and> snd (run_docker ''img'' ''/t/Task_7.lean''
         (Completed ''Deterministic Hash: ZZZZZZZZZZZZZZZZZZZZZZZZZZZZZZZZZZZZZZZZZZZZZZZZZZZZZZZZZZZZZZZZ'' ''''))
       = Inr (HexStr ''0xZZZZZZZZZZZZZZZZZZZZZZZZZZZZZZZZZZZZZZZZZZZZZZZZZZZZZZZZZZZZZZZZ'')
   \<and> snd (run_docker ''img'' ''/t/Task_7.lean''
         (Completed ''Deterministic Hash: ZZZZZZZZZZZZZZZZZZZZZZZZZZZZZZZZZZZZZZZZZZZZZZZZZZZZZZZZZZZZZZZZ'' ''''))
       \<noteq> Inr (HexBytes (keccak_text ''ZZZZZZZZZZZZZZZZZZZZZZZZZZZZZZZZZZZZZZZZZZZZZZZZZZZZZZZZZZZZZZZZ''))"
  by (simp add: run_docker_def classify_def startswith_def hash_char_def
        full_length_hash_literal_def hex_digit_def)

text \<open>A token matched by the pattern holds no \<open>x\<close>, so it never starts with \<open>0x\<close>.\<close>

lemma re_search_no_x: "re_search out = Some tok \<Longrightarrow> CHR ''x'' \<notin> set tok"
proof (induction out)
  case Nil
  then show ?case by simp
next
  case (Cons c cs)
  show ?case
  proof (cases "startswith (c # cs) ''Deterministic Hash: ''
         \<and> takeWhile hash_char (drop (length ''Deterministic Hash: '') (c # cs)) \<noteq> []")
    case True
    with Cons.prems
    have t: "tok = takeWhile hash_char (drop (length ''Deterministic Hash: '') (c # cs))"
      by simp
    have "\<forall>x\<in>set tok. hash_char x"
      unfolding t by (meson set_takeWhileD)
    moreover have "\<not> hash_char CHR ''x''"
      by (simp add: hash_char_def)
    ultimately show ?thesis by blast
  next
    case False
    with Cons.prems have "re_search cs = Some tok"
      by (simp split: if_splits)
    then show ?thesis using Cons.IH by blast
  qed
qed

text \<open>
  C8, amended. For every output without the failure status in which the pattern finds a
  token: a token of exactly 64 characters is returned as the string \<open>0x\<close> followed by
  the token, and any other token is returned as the Keccak-256 digest of its text. The
  witness is the claim's own example: \<open>Deterministic Hash: abc123\<close> gives the digest
  of \<open>abc123\<close>, 32 bytes, not the string.
\<close>

theorem token_literal_or_digest:
  assumes "\<not> str_in ''Status: FAILURE'' out" and "re_search out = Some tok"
  shows "snd (run_docker img path (Completed out err)) =
           Inr (if length tok = 64 then HexStr (''0x'' @ tok) else HexBytes (keccak_text tok))"
proof -
  have "\<not> startswith tok ''0x''"
    using re_search_no_x [OF assms(2)] by (auto simp: startswith_iff)
  then show ?thesis
    using assms by (simp add: run_docker_def classify_def)
qed

theorem token_literal_or_digest_witness:
  "snd (run_docker ''img'' ''/t/Task_7.lean'' (Completed ''Deterministic Hash: abc123'' ''''))
     = Inr (HexBytes
        [0x71,0x9a,0xcc,0xc6,0x1a,0x9c,0xc1,0x26,0x83,0x0e,0x59,0x06,0xf9,0xd6,0x72,0xd0,
         0x6e,0xab,0x6f,0x85,0x97,0x28,0x70,0x95,0xa2,0xc5,0x5a,0x8b,0x77,0x5e,0x70,0x16])"
proof -
  have a: "\<not> str_in ''Status: FAILURE'' ''Deterministic Hash: abc123''"
    by (simp add: startswith_def)
  have b: "re_search ''Deterministic Hash: abc123'' = Some ''abc123''"
    by (simp add: startswith_def hash_char_def)
  have "snd (run_docker ''img'' ''/t/Task_7.lean'' (Completed ''Deterministic Hash: abc123'' ''''))
          = Inr (HexBytes (keccak_text ''abc123''))"
    using token_literal_or_digest [OF a b, of "''img''" "''/t/Task_7.lean''" "''''"]
    by simp
  then show ?thesis
    by (simp only: keccak_text_abc123)
qed

end
